theory Spec2Isabelle
  imports Main
begin

section \<open>Data model\<close>

text \<open>
  The adapter sits between a tool-call interface and the n8n REST API.  The values that
  travel through it are modelled at their declared TypeScript types: an interface is a
  record, an optional member an \<open>option\<close>, an enum a datatype.  Payload parts that no
  function of the gateway inspects (nodes, connections, settings) are kept as opaque JSON.
  What the remote side sends in the body of an error response has no declared type and is
  a JSON value; a JSON object is the list of its members, and where a key occurs twice the
  later member counts, as for \<open>JSON.parse\<close>.  Numbers are integers.
\<close>

datatype json =
    JNull
  | JBool bool
  | JNum int
  | JStr string
  | JArr "json list"
  | JObj "(string \<times> json) list"

text \<open>\<open>enum ErrorCode\<close> of \<open>utils/errors.ts\<close>.\<close>

datatype ErrorCode =
    INVALID_PARAMS
  | INTERNAL_ERROR
  | AUTHENTICATION_ERROR
  | AUTHORIZATION_ERROR
  | NOT_FOUND
  | RATE_LIMIT_ERROR
  | NETWORK_ERROR
  | TIMEOUT_ERROR
  | API_ERROR

text \<open>\<open>interface Workflow\<close> of \<open>types/index.ts\<close>.\<close>

record Workflow =
  wf_id :: "string option"
  wf_name :: string
  wf_nodes :: "json list"
  wf_connections :: json
  wf_active :: bool
  wf_settings :: "json option"
  wf_staticData :: "json option"
  wf_tags :: "string list option"
  wf_updatedAt :: "string option"
  wf_createdAt :: "string option"
  wf_versionId :: "string option"
  wf_meta :: "json option"

text \<open>
  The object left of \<open>updateWorkflowSchema.parse(args)\<close> once \<open>id\<close> is taken out
  (\<open>const { id, ...updateData } = params\<close>): every member is optional except
  \<open>settings\<close>, which the schema fills with a default.
\<close>

record UpdateData =
  ud_name :: "string option"
  ud_nodes :: "json list option"
  ud_connections :: "json option"
  ud_active :: "bool option"
  ud_tags :: "string list option"
  ud_settings :: json

text \<open>
  The three shapes of request body the workflow operations send: the literal
  \<open>{ active: b }\<close>, a whole \<open>Workflow\<close>, and a \<open>Partial<Workflow>\<close> made of the
  caller's fields.
\<close>

datatype payload =
    ActiveOnly bool
  | Full Workflow
  | PartialUpdate UpdateData

record AxiosRequestConfig =
  req_method :: string
  req_url :: string
  req_data :: "payload option"

text \<open>
  \<open>interface AxiosError\<close> of \<open>utils/errors.ts\<close>.  The body of the response,
  \<open>data?: unknown\<close>, is whatever the remote side sent: any JSON value, or a string when
  the body was not JSON.  \<open>err_config\<close> is the \<open>config\<close> member read through
  \<open>(error as any).config\<close>, the request as axios sent it.
\<close>

record AxiosResponse =
  status :: "nat option"
  statusText :: "string option"
  resp_data :: "json option"

record ErrorConfig =
  err_method :: "string option"
  err_url :: "string option"

record AxiosError =
  response :: "AxiosResponse option"
  code :: "string option"
  message :: string
  err_config :: "ErrorConfig option"

text \<open>
  Everything a \<open>catch\<close> clause of the adapter can receive: an \<open>McpError\<close> (code and
  message), an axios error, any other \<open>Error\<close> instance (its message), or a thrown value
  that is not an \<open>Error\<close>.
\<close>

datatype failure =
    McpError ErrorCode string
  | AxiosFailure AxiosError
  | JsError string
  | Thrown

text \<open>\<open>interface WebhookRequest\<close> of \<open>types/index.ts\<close>.\<close>

record WebhookRequest =
  webhookUrl :: string
  httpMethod :: string
  wh_data :: "json option"
  wh_headers :: "(string \<times> string) list option"
  waitForResponse :: bool

text \<open>
  What the process does to the outside world, in order: a request on the authenticated
  channel (\<open>this.client.request(config)\<close>), a backoff pause in milliseconds
  (\<open>this.delay(ms)\<close>), a direct webhook call (\<open>axios.request\<close> with its timeout).
\<close>

datatype event =
    Sent AxiosRequestConfig
  | Delay nat
  | Hook WebhookRequest nat

text \<open>
  The remote instance is any function from the history so far and the request at hand to
  an outcome: \<open>Inr\<close> the response body, \<open>Inl\<close> the value the \<open>await\<close> throws.
\<close>

type_synonym 'd channel = "event list \<Rightarrow> AxiosRequestConfig \<Rightarrow> failure + 'd"

section \<open>Remote API Gateway (\<open>services/n8nClient.ts\<close>)\<close>

text \<open>The constructor's \<open>maxRetries = 3\<close> default.\<close>

definition defaultMaxRetries :: "int option \<Rightarrow> int" where
  "defaultMaxRetries maxRetries = (case maxRetries of None \<Rightarrow> 3 | Some m \<Rightarrow> m)"

text \<open>The optional chain \<open>error.response?.status\<close>.\<close>

definition response_status :: "AxiosError \<Rightarrow> nat option" where
  "response_status error = (case response error of None \<Rightarrow> None | Some r \<Rightarrow> status r)"

text \<open>\<open>shouldRetry\<close>: only axios errors, and of those the ones with status 429, 503, 504
  or with no response.\<close>

fun shouldRetry :: "failure \<Rightarrow> bool" where
  "shouldRetry (AxiosFailure error) =
     (let status = response_status error
      in status = Some 429 \<or> status = Some 503 \<or> status = Some 504 \<or> response error = None)"
| "shouldRetry _ = False"

text \<open>
  \<open>request(config, retries = 0)\<close>: send; on a failure, retry after
  \<open>Math.pow(2, retries) * 1000\<close> milliseconds while \<open>retries < this.maxRetries\<close> and
  \<open>shouldRetry(error)\<close>; otherwise rethrow.
\<close>

function request ::
  "'d channel \<Rightarrow> int \<Rightarrow> AxiosRequestConfig \<Rightarrow> nat \<Rightarrow> event list \<Rightarrow> (failure + 'd) \<times> event list"
where
  "request remote maxRetries config retries tr =
     (case remote tr config of
        Inr response_data \<Rightarrow> (Inr response_data, tr @ [Sent config])
      | Inl error \<Rightarrow>
          if int retries < maxRetries \<and> shouldRetry error
          then request remote maxRetries config (retries + 1)
                 (tr @ [Sent config, Delay (2 ^ retries * 1000)])
          else (Inl error, tr @ [Sent config]))"
  by pat_completeness auto
termination
  by (relation "measure (\<lambda>(remote, maxRetries, config, retries, tr). nat (maxRetries - int retries))") auto

declare request.simps [simp del]

definition getWorkflow ::
  "Workflow channel \<Rightarrow> int \<Rightarrow> string \<Rightarrow> event list \<Rightarrow> (failure + Workflow) \<times> event list"
where
  "getWorkflow remote maxRetries wid tr =
     request remote maxRetries \<lparr>req_method = ''GET'', req_url = ''/workflows/'' @ wid, req_data = None\<rparr> 0 tr"

text \<open>
  The guards of the \<open>catch\<close> clauses:
  \<open>axios.isAxiosError(error) && error.response?.status === 405\<close>, and the same with
  \<open>=== 405 || ... === 400\<close>.
\<close>

fun isAxios405 :: "failure \<Rightarrow> bool" where
  "isAxios405 (AxiosFailure error) = (response_status error = Some 405)"
| "isAxios405 _ = False"

fun isAxios405or400 :: "failure \<Rightarrow> bool" where
  "isAxios405or400 (AxiosFailure error) =
     (response_status error = Some 405 \<or> response_status error = Some 400)"
| "isAxios405or400 _ = False"

text \<open>\<open>updateWorkflow(id, workflow)\<close>: PUT, and PATCH when the PUT is refused with 405.\<close>

definition updateWorkflow ::
  "Workflow channel \<Rightarrow> int \<Rightarrow> string \<Rightarrow> payload \<Rightarrow> event list \<Rightarrow> (failure + Workflow) \<times> event list"
where
  "updateWorkflow remote maxRetries wid workflow tr =
     (case request remote maxRetries
             \<lparr>req_method = ''PUT'', req_url = ''/workflows/'' @ wid, req_data = Some workflow\<rparr> 0 tr of
        (Inr updated, tr1) \<Rightarrow> (Inr updated, tr1)
      | (Inl error, tr1) \<Rightarrow>
          if isAxios405 error
          then request remote maxRetries
                 \<lparr>req_method = ''PATCH'', req_url = ''/workflows/'' @ wid, req_data = Some workflow\<rparr> 0 tr1
          else (Inl error, tr1))"

text \<open>
  \<open>activateWorkflow(id)\<close>.  The inner \<open>try\<close> holds the fetch, the assignment
  \<open>workflow.active = true\<close> and the second PUT; its \<open>catch\<close> sends the PATCH.
\<close>

definition activateWorkflow ::
  "Workflow channel \<Rightarrow> int \<Rightarrow> string \<Rightarrow> event list \<Rightarrow> (failure + Workflow) \<times> event list"
where
  "activateWorkflow remote maxRetries wid tr =
     (case request remote maxRetries
             \<lparr>req_method = ''PUT'', req_url = ''/workflows/'' @ wid, req_data = Some (ActiveOnly True)\<rparr> 0 tr of
        (Inr activated, tr1) \<Rightarrow> (Inr activated, tr1)
      | (Inl error, tr1) \<Rightarrow>
          if isAxios405or400 error
          then (case getWorkflow remote maxRetries wid tr1 of
                  (Inr workflow, tr2) \<Rightarrow>
                    (case request remote maxRetries
                            \<lparr>req_method = ''PUT'', req_url = ''/workflows/'' @ wid,
                             req_data = Some (Full (workflow\<lparr>wf_active := True\<rparr>))\<rparr> 0 tr2 of
                       (Inr activated, tr3) \<Rightarrow> (Inr activated, tr3)
                     | (Inl putError, tr3) \<Rightarrow>
                         request remote maxRetries
                           \<lparr>req_method = ''PATCH'', req_url = ''/workflows/'' @ wid,
                            req_data = Some (ActiveOnly True)\<rparr> 0 tr3)
                | (Inl putError, tr2) \<Rightarrow>
                    request remote maxRetries
                      \<lparr>req_method = ''PATCH'', req_url = ''/workflows/'' @ wid,
                       req_data = Some (ActiveOnly True)\<rparr> 0 tr2)
          else (Inl error, tr1))"

text \<open>\<open>deactivateWorkflow(id)\<close>, written out in the source a second time.\<close>

definition deactivateWorkflow ::
  "Workflow channel \<Rightarrow> int \<Rightarrow> string \<Rightarrow> event list \<Rightarrow> (failure + Workflow) \<times> event list"
where
  "deactivateWorkflow remote maxRetries wid tr =
     (case request remote maxRetries
             \<lparr>req_method = ''PUT'', req_url = ''/workflows/'' @ wid, req_data = Some (ActiveOnly False)\<rparr> 0 tr of
        (Inr deactivated, tr1) \<Rightarrow> (Inr deactivated, tr1)
      | (Inl error, tr1) \<Rightarrow>
          if isAxios405or400 error
          then (case getWorkflow remote maxRetries wid tr1 of
                  (Inr workflow, tr2) \<Rightarrow>
                    (case request remote maxRetries
                            \<lparr>req_method = ''PUT'', req_url = ''/workflows/'' @ wid,
                             req_data = Some (Full (workflow\<lparr>wf_active := False\<rparr>))\<rparr> 0 tr2 of
                       (Inr deactivated, tr3) \<Rightarrow> (Inr deactivated, tr3)
                     | (Inl putError, tr3) \<Rightarrow>
                         request remote maxRetries
                           \<lparr>req_method = ''PATCH'', req_url = ''/workflows/'' @ wid,
                            req_data = Some (ActiveOnly False)\<rparr> 0 tr3)
                | (Inl putError, tr2) \<Rightarrow>
                    request remote maxRetries
                      \<lparr>req_method = ''PATCH'', req_url = ''/workflows/'' @ wid,
                       req_data = Some (ActiveOnly False)\<rparr> 0 tr2)
          else (Inl error, tr1))"

text \<open>
  The two operations as one, with the flag as a parameter: the reading under which
  deactivation is activation with \<open>false\<close> for \<open>true\<close>.  It is compared with the two
  definitions above, which follow the source.
\<close>

definition setActive_reference ::
  "bool \<Rightarrow> Workflow channel \<Rightarrow> int \<Rightarrow> string \<Rightarrow> event list \<Rightarrow> (failure + Workflow) \<times> event list"
where
  "setActive_reference flag remote maxRetries wid tr =
     (case request remote maxRetries
             \<lparr>req_method = ''PUT'', req_url = ''/workflows/'' @ wid, req_data = Some (ActiveOnly flag)\<rparr> 0 tr of
        (Inr result, tr1) \<Rightarrow> (Inr result, tr1)
      | (Inl error, tr1) \<Rightarrow>
          if isAxios405or400 error
          then (case getWorkflow remote maxRetries wid tr1 of
                  (Inr workflow, tr2) \<Rightarrow>
                    (case request remote maxRetries
                            \<lparr>req_method = ''PUT'', req_url = ''/workflows/'' @ wid,
                             req_data = Some (Full (workflow\<lparr>wf_active := flag\<rparr>))\<rparr> 0 tr2 of
                       (Inr result, tr3) \<Rightarrow> (Inr result, tr3)
                     | (Inl putError, tr3) \<Rightarrow>
                         request remote maxRetries
                           \<lparr>req_method = ''PATCH'', req_url = ''/workflows/'' @ wid,
                            req_data = Some (ActiveOnly flag)\<rparr> 0 tr3)
                | (Inl putError, tr2) \<Rightarrow>
                    request remote maxRetries
                      \<lparr>req_method = ''PATCH'', req_url = ''/workflows/'' @ wid,
                       req_data = Some (ActiveOnly flag)\<rparr> 0 tr2)
          else (Inl error, tr1))"

text \<open>
  \<open>triggerWebhookWorkflow(webhook)\<close>: one direct call outside the authenticated channel
  and outside \<open>request\<close>, with a timeout of 60000 or 5000 milliseconds.
\<close>

type_synonym 'r hook = "event list \<Rightarrow> WebhookRequest \<Rightarrow> failure + 'r"

definition triggerWebhookWorkflow ::
  "'r hook \<Rightarrow> WebhookRequest \<Rightarrow> event list \<Rightarrow> (failure + 'r) \<times> event list"
where
  "triggerWebhookWorkflow hook webhook tr =
     (hook tr webhook, tr @ [Hook webhook (if waitForResponse webhook then 60000 else 5000)])"

section \<open>Error Classifier (\<open>utils/errors.ts\<close>)\<close>

text \<open>
  \<open>String.prototype.includes\<close>, and the operator \<open>||\<close> on an optional string, for which
  \<open>undefined\<close> and the empty string are both falsy.
\<close>

fun str_includes :: "string \<Rightarrow> string \<Rightarrow> bool" where
  "str_includes [] sub = (sub = [])"
| "str_includes (c # cs) sub = (take (length sub) (c # cs) = sub \<or> str_includes cs sub)"

definition orElse :: "string option \<Rightarrow> string \<Rightarrow> string" where
  "orElse s fallback = (case s of None \<Rightarrow> fallback | Some v \<Rightarrow> if v = [] then fallback else v)"

text \<open>
  The same operator on a value of unknown type: a value is falsy when it is absent,
  \<open>null\<close>, \<open>false\<close>, \<open>0\<close> or the empty string, and \<open>a || b\<close> is \<open>a\<close> unless \<open>a\<close> is
  falsy.
\<close>

fun falsy :: "json option \<Rightarrow> bool" where
  "falsy None = True"
| "falsy (Some JNull) = True"
| "falsy (Some (JBool b)) = (\<not> b)"
| "falsy (Some (JNum n)) = (n = 0)"
| "falsy (Some (JStr s)) = (s = [])"
| "falsy (Some (JArr xs)) = False"
| "falsy (Some (JObj kvs)) = False"

definition jsOr :: "json option \<Rightarrow> json \<Rightarrow> json" where
  "jsOr a b = (case a of None \<Rightarrow> b | Some v \<Rightarrow> if falsy (Some v) then b else v)"

text \<open>
  The constants \<open>handleAxiosError\<close> reads off the error before its \<open>switch\<close>:
  \<open>error.response?.status\<close> (above), \<open>error.response?.statusText\<close>, and of
  \<open>(error as any).config\<close> the members \<open>config?.method\<close> and \<open>config?.url\<close>.
\<close>

definition response_statusText :: "AxiosError \<Rightarrow> string option" where
  "response_statusText error = (case response error of None \<Rightarrow> None | Some r \<Rightarrow> statusText r)"

definition config_method :: "AxiosError \<Rightarrow> string option" where
  "config_method error = (case err_config error of None \<Rightarrow> None | Some c \<Rightarrow> err_method c)"

definition config_url :: "AxiosError \<Rightarrow> string option" where
  "config_url error = (case err_config error of None \<Rightarrow> None | Some c \<Rightarrow> err_url c)"

text \<open>
  \<open>const apiMessage = (error.response?.data as { message?: string })?.message\<close>.  The
  cast checks nothing: the result is the member \<open>message\<close> when the body is an object that
  has one, of whatever type it is, and \<open>undefined\<close> for every other body.
\<close>

definition response_apiMessage :: "AxiosError \<Rightarrow> json option" where
  "response_apiMessage error =
     (case response error of
        None \<Rightarrow> None
      | Some r \<Rightarrow>
          (case resp_data r of
             Some (JObj members) \<Rightarrow> map_of (rev members) ''message''
           | _ \<Rightarrow> None))"

text \<open>
  \<open>apiMessage?.includes(sub)\<close> as a condition.  The optional chain stops at
  \<open>undefined\<close> and \<open>null\<close> only.  A string has \<open>String.prototype.includes\<close>, an array
  \<open>Array.prototype.includes\<close>, which looks for an element equal to \<open>sub\<close>; a number, a
  boolean and an object parsed from JSON have no function of that name, and the call
  throws a \<open>TypeError\<close>.
\<close>

fun optIncludes :: "json option \<Rightarrow> string \<Rightarrow> failure + bool" where
  "optIncludes None sub = Inr False"
| "optIncludes (Some JNull) sub = Inr False"
| "optIncludes (Some (JStr s)) sub = Inr (str_includes s sub)"
| "optIncludes (Some (JArr xs)) sub = Inr (JStr sub \<in> set xs)"
| "optIncludes (Some v) sub = Inl (JsError ''apiMessage?.includes is not a function'')"

text \<open>
  \<open>handleAxiosError\<close>: the \<open>switch (status)\<close> with its cases in the source's order, the
  \<open>default\<close> branch last.  The result is the pair \<open>{ message, code }\<close>, or the
  \<open>TypeError\<close> of the first case.  \<open>message\<close> is declared a string; where it is taken
  from the response body it is the value found there.
\<close>

definition handleAxiosError :: "AxiosError \<Rightarrow> failure + json \<times> ErrorCode" where
  "handleAxiosError error =
     (let status = response_status error;
          apiMessage = response_apiMessage error
      in
        if status = Some 400 then
          (case optIncludes apiMessage ''settings'' of
             Inl typeError \<Rightarrow> Inl typeError
           | Inr mentions \<Rightarrow>
               Inr (if mentions
                    then JStr ''Workflow settings are required. The n8n API requires a settings object with executionOrder, saveData options, etc.''
                    else jsOr apiMessage (JStr ''Bad request. The request parameters are invalid.''),
                    INVALID_PARAMS))
        else if status = Some 401 then
          Inr (JStr ''Authentication failed. Please check your n8n API key.'', AUTHENTICATION_ERROR)
        else if status = Some 403 then
          Inr (JStr ''You do not have permission to perform this action.'', AUTHORIZATION_ERROR)
        else if status = Some 404 then
          Inr (jsOr apiMessage (JStr ''The requested resource was not found.''), NOT_FOUND)
        else if status = Some 405 then
          Inr (JStr (''Method not allowed. The n8n instance does not support ''
                 @ orElse (config_method error) ''this method'' @ '' for this endpoint.''
                 @ (if (case config_url error of None \<Rightarrow> False | Some u \<Rightarrow> str_includes u ''/workflows'')
                       \<and> config_method error = Some ''PATCH''
                    then '' Some n8n instances require PUT method for workflow updates instead of PATCH.''
                    else [])),
               API_ERROR)
        else if status = Some 429 then
          Inr (JStr ''Rate limit exceeded. Please try again later.'', RATE_LIMIT_ERROR)
        else if status = Some 500 \<or> status = Some 502 \<or> status = Some 503 \<or> status = Some 504 then
          Inr (JStr (''n8n server error: '' @ orElse (response_statusText error) ''Internal server error''),
               API_ERROR)
        else if code error = Some ''ECONNABORTED'' \<or> code error = Some ''ETIMEDOUT'' then
          Inr (JStr ''Request timed out. Please try again.'', TIMEOUT_ERROR)
        else if code error = Some ''ENOTFOUND'' \<or> code error = Some ''ECONNREFUSED'' then
          Inr (JStr ''Unable to connect to n8n instance. Please check your API URL.'', NETWORK_ERROR)
        else
          Inr (jsOr apiMessage
                 (JStr (orElse (Some (message error)) ''An error occurred while communicating with n8n'')),
               API_ERROR))"

text \<open>\<open>interface ErrorResponse\<close> and its content entries.\<close>

record TextContent =
  entry_type :: string
  entry_text :: string

record ErrorResponse =
  isError :: bool
  content :: "TextContent list"

text \<open>
  The values of the local variables \<open>message\<close> and \<open>code\<close> of
  \<open>createErrorResponse\<close> when it reaches its log statement: the
  \<open>instanceof McpError\<close> test first, then the axios type guard, then
  \<open>instanceof Error\<close>, then the fallback.  \<open>code\<close> starts as \<open>INTERNAL_ERROR\<close>.  A
  \<open>TypeError\<close> of \<open>handleAxiosError\<close> leaves the function.
\<close>

fun messageAndCode :: "failure \<Rightarrow> failure + json \<times> ErrorCode" where
  "messageAndCode (McpError c m) = Inr (JStr m, c)"
| "messageAndCode (AxiosFailure error) = handleAxiosError error"
| "messageAndCode (JsError m) = Inr (JStr m, INTERNAL_ERROR)"
| "messageAndCode Thrown = Inr (JStr ''An unexpected error occurred'', INTERNAL_ERROR)"

text \<open>\<open>Array.prototype.join\<close> on strings.\<close>

fun join :: "string list \<Rightarrow> string \<Rightarrow> string" where
  "join [] sep = []"
| "join [x] sep = x"
| "join (x # y # ys) sep = x @ sep @ join (y # ys) sep"

text \<open>
  The conversion to a string that the template literal \<open>`Error: ${message}`\<close> applies.
  A string is itself; an integer is written in decimal; an array is its elements joined
  by commas, \<open>null\<close> elements as the empty string; an object parsed from JSON is
  \<open>[object Object]\<close>, unless it has a member \<open>toString\<close> of its own, which hides
  \<open>Object.prototype.toString\<close> and is no function: then the conversion throws a
  \<open>TypeError\<close>.
\<close>

fun digitsOf :: "nat \<Rightarrow> string" where
  "digitsOf n =
     (if n < 10 then [char_of (48 + n)] else digitsOf (n div 10) @ [char_of (48 + n mod 10)])"

declare digitsOf.simps [simp del]

definition showInt :: "int \<Rightarrow> string" where
  "showInt n = (if n < 0 then ''-'' @ digitsOf (nat (- n)) else digitsOf (nat n))"

fun toPrimitiveThrows :: "json \<Rightarrow> bool" where
  "toPrimitiveThrows (JObj members) = (''toString'' \<in> fst ` set members)"
| "toPrimitiveThrows (JArr xs) = (\<exists>x \<in> set xs. toPrimitiveThrows x)"
| "toPrimitiveThrows v = False"

fun jsString :: "json \<Rightarrow> string" where
  "jsString JNull = ''null''"
| "jsString (JBool b) = (if b then ''true'' else ''false'')"
| "jsString (JNum n) = showInt n"
| "jsString (JStr s) = s"
| "jsString (JArr xs) = join (map (\<lambda>x. if x = JNull then [] else jsString x) xs) '',''"
| "jsString (JObj members) = ''[object Object]''"

definition templateString :: "json \<Rightarrow> failure + string" where
  "templateString v =
     (if toPrimitiveThrows v then Inl (JsError ''Cannot convert object to primitive value'')
      else Inr (jsString v))"

text \<open>
  \<open>createErrorResponse\<close>: the response carries the message only; the code goes to the
  log.  Nothing in the function catches what \<open>handleAxiosError\<close> or the template literal
  throws.
\<close>

definition createErrorResponse :: "failure \<Rightarrow> failure + ErrorResponse" where
  "createErrorResponse error =
     (case messageAndCode error of
        Inl thrown \<Rightarrow> Inl thrown
      | Inr (msg, c) \<Rightarrow>
          (case templateString msg of
             Inl thrown \<Rightarrow> Inl thrown
           | Inr s \<Rightarrow>
               Inr \<lparr>isError = True,
                    content = [\<lparr>entry_type = ''text'', entry_text = ''Error: '' @ s\<rparr>]\<rparr>))"

text \<open>
  \<open>validateRequiredParams(params, required)\<close>: \<open>required.filter(param => !params[param])\<close>
  and, when a name is left, an \<open>McpError\<close> with \<open>missing.join(', ')\<close>.  \<open>params[param]\<close>
  is the member of that name; for a name the object has no member of, it is what the
  object inherits from \<open>Object.prototype\<close>, a function or an object and so truthy, or
  \<open>undefined\<close>.
\<close>

definition objectPrototypeMembers :: "string list" where
  "objectPrototypeMembers =
     [''constructor'', ''hasOwnProperty'', ''isPrototypeOf'', ''propertyIsEnumerable'',
      ''toLocaleString'', ''toString'', ''valueOf'', ''__proto__'',
      ''__defineGetter__'', ''__defineSetter__'', ''__lookupGetter__'', ''__lookupSetter__'']"

definition validateRequiredParams :: "(string \<times> json) list \<Rightarrow> string list \<Rightarrow> failure + unit" where
  "validateRequiredParams params required =
     (let missing =
            filter (\<lambda>param. case map_of (rev params) param of
                                 Some v \<Rightarrow> falsy (Some v)
                               | None \<Rightarrow> param \<notin> set objectPrototypeMembers)
              required
      in if length missing > 0
         then Inl (McpError INVALID_PARAMS (''Missing required parameters: '' @ join missing '', ''))
         else Inr ())"

text \<open>
  \<open>sanitizeErrorMessage\<close>: three global, case-insensitive replacements in a row,
  \<^verbatim>\<open>/X-N8N-API-KEY:\s*\S+/gi\<close>, \<^verbatim>\<open>/api[_-]?key["\s:=]+["']?[\w-]+["']?/gi\<close> and
  \<^verbatim>\<open>/Bearer\s+[\w-]+/gi\<close>.  A string is the list of its bytes in UTF-8.  \<open>\w\<close> is
  \<open>[A-Za-z0-9_]\<close>.  \<open>\s\<close> is the white space and the line terminators of JavaScript: six
  ASCII characters, and U+00A0, U+1680, U+2000 to U+200A, U+2028, U+2029, U+202F, U+205F,
  U+3000 and U+FEFF, which take two or three bytes each.  Each matcher returns the length
  of the match that starts at the head of its argument, if there is one; in all three
  patterns every greedy repetition is followed by a class disjoint from its own, so the
  greedy match is the only one the backtracking search can find.
\<close>

definition isSpace :: "char \<Rightarrow> bool" where
  "isSpace c = (c \<in> {CHR '' '', CHR 0x09, CHR 0x0A, CHR 0x0B, CHR 0x0C, CHR 0x0D})"

definition wideSpaces :: "string list" where
  "wideSpaces =
     [[CHR 0xC2, CHR 0xA0], [CHR 0xE1, CHR 0x9A, CHR 0x80],
      [CHR 0xE2, CHR 0x80, CHR 0x80], [CHR 0xE2, CHR 0x80, CHR 0x81], [CHR 0xE2, CHR 0x80, CHR 0x82],
      [CHR 0xE2, CHR 0x80, CHR 0x83], [CHR 0xE2, CHR 0x80, CHR 0x84], [CHR 0xE2, CHR 0x80, CHR 0x85],
      [CHR 0xE2, CHR 0x80, CHR 0x86], [CHR 0xE2, CHR 0x80, CHR 0x87], [CHR 0xE2, CHR 0x80, CHR 0x88],
      [CHR 0xE2, CHR 0x80, CHR 0x89], [CHR 0xE2, CHR 0x80, CHR 0x8A],
      [CHR 0xE2, CHR 0x80, CHR 0xA8], [CHR 0xE2, CHR 0x80, CHR 0xA9], [CHR 0xE2, CHR 0x80, CHR 0xAF],
      [CHR 0xE2, CHR 0x81, CHR 0x9F], [CHR 0xE3, CHR 0x80, CHR 0x80], [CHR 0xEF, CHR 0xBB, CHR 0xBF]]"

text \<open>The number of bytes of the white-space character at the head of a string, 0 when
  the string does not start with one.\<close>

definition spaceLen :: "string \<Rightarrow> nat" where
  "spaceLen s =
     (case s of
        [] \<Rightarrow> 0
      | c # cs \<Rightarrow>
          if isSpace c then 1
          else if of_char c < (128 :: nat) then 0
          else (case find (\<lambda>w. take (length w) s = w) wideSpaces of
                  None \<Rightarrow> 0
                | Some w \<Rightarrow> length w))"

text \<open>
  The lengths in bytes of the longest prefixes matched by \<open>\s*\<close>, by \<open>\S*\<close> and by
  \<^verbatim>\<open>["\s:=]*\<close>.  The first argument of the first and the third counts the bytes of the
  current white-space character that are still to be taken.
\<close>

fun countSpaces :: "nat \<Rightarrow> string \<Rightarrow> nat" where
  "countSpaces k [] = 0"
| "countSpaces (Suc k) (c # cs) = Suc (countSpaces k cs)"
| "countSpaces 0 (c # cs) =
     (case spaceLen (c # cs) of 0 \<Rightarrow> 0 | Suc k \<Rightarrow> Suc (countSpaces k cs))"

fun countNonSpaces :: "string \<Rightarrow> nat" where
  "countNonSpaces [] = 0"
| "countNonSpaces (c # cs) = (if spaceLen (c # cs) = 0 then Suc (countNonSpaces cs) else 0)"

fun countDelims :: "nat \<Rightarrow> string \<Rightarrow> nat" where
  "countDelims k [] = 0"
| "countDelims (Suc k) (c # cs) = Suc (countDelims k cs)"
| "countDelims 0 (c # cs) =
     (if c = CHR 0x22 \<or> c = CHR '':'' \<or> c = CHR ''='' then Suc (countDelims 0 cs)
      else (case spaceLen (c # cs) of 0 \<Rightarrow> 0 | Suc k \<Rightarrow> Suc (countDelims k cs)))"

definition isWordOrDash :: "char \<Rightarrow> bool" where
  "isWordOrDash c =
     (let n = (of_char c :: nat)
      in (48 \<le> n \<and> n \<le> 57) \<or> (65 \<le> n \<and> n \<le> 90) \<or> (97 \<le> n \<and> n \<le> 122)
         \<or> c = CHR ''_'' \<or> c = CHR ''-'')"

text \<open>
  A literal of a pattern with the \<open>i\<close> flag is given as the pairs of its lower-case and
  upper-case characters; a character of the input matches when it is one of the two.
\<close>

fun startsWithIgnoreCase :: "string \<Rightarrow> (char \<times> char) list \<Rightarrow> bool" where
  "startsWithIgnoreCase s [] = True"
| "startsWithIgnoreCase [] (p # ps) = False"
| "startsWithIgnoreCase (c # cs) ((l, u) # ps) =
     (if c = l \<or> c = u then startsWithIgnoreCase cs ps else False)"

definition matchApiKeyHeader :: "string \<Rightarrow> nat option" where
  "matchApiKeyHeader s =
     (if startsWithIgnoreCase s (zip ''x-n8n-api-key:'' ''X-N8N-API-KEY:'')
      then (let r = drop 14 s;
                spaces = countSpaces 0 r;
                secret = countNonSpaces (drop spaces r)
            in if secret = 0 then None else Some (14 + spaces + secret))
      else None)"

definition matchApiKey :: "string \<Rightarrow> nat option" where
  "matchApiKey s =
     (if startsWithIgnoreCase s (zip ''api'' ''API'')
      then (let r1 = drop 3 s;
                sep = (case r1 of [] \<Rightarrow> 0 | c # _ \<Rightarrow> if c = CHR ''_'' \<or> c = CHR ''-'' then 1 else (0::nat));
                r2 = drop sep r1
            in if startsWithIgnoreCase r2 (zip ''key'' ''KEY'')
               then (let r3 = drop 3 r2;
                         delims = countDelims 0 r3;
                         r4 = drop delims r3;
                         isQuote = (\<lambda>c. c = CHR 0x22 \<or> c = CHR 0x27);
                         q1 = (case r4 of [] \<Rightarrow> 0 | c # _ \<Rightarrow> if isQuote c then 1 else (0::nat));
                         r5 = drop q1 r4;
                         secret = takeWhile isWordOrDash r5;
                         r6 = dropWhile isWordOrDash r5;
                         q2 = (case r6 of [] \<Rightarrow> 0 | c # _ \<Rightarrow> if isQuote c then 1 else (0::nat))
                     in if delims = 0 \<or> secret = [] then None
                        else Some (3 + sep + 3 + delims + q1 + length secret + q2))
               else None)
      else None)"

definition matchBearer :: "string \<Rightarrow> nat option" where
  "matchBearer s =
     (if startsWithIgnoreCase s (zip ''bearer'' ''BEARER'')
      then (let r = drop 6 s;
                spaces = countSpaces 0 r;
                secret = takeWhile isWordOrDash (drop spaces r)
            in if spaces = 0 \<or> secret = [] then None
               else Some (6 + spaces + length secret))
      else None)"

text \<open>
  \<open>String.prototype.replace\<close> with a global pattern: scan from the left, and after a
  match go on behind it.  The third argument counts the characters of the current match
  that are still to be skipped.
\<close>

fun replaceAll :: "(string \<Rightarrow> nat option) \<Rightarrow> string \<Rightarrow> nat \<Rightarrow> string \<Rightarrow> string" where
  "replaceAll m replacement skip [] = []"
| "replaceAll m replacement (Suc k) (c # cs) = replaceAll m replacement k cs"
| "replaceAll m replacement 0 (c # cs) =
     (case m (c # cs) of
        Some n \<Rightarrow> replacement @ replaceAll m replacement (n - 1) cs
      | None \<Rightarrow> c # replaceAll m replacement 0 cs)"

definition sanitizeErrorMessage :: "string \<Rightarrow> string" where
  "sanitizeErrorMessage msg =
     replaceAll matchBearer ''Bearer [REDACTED]'' 0
       (replaceAll matchApiKey ''api_key: [REDACTED]'' 0
          (replaceAll matchApiKeyHeader ''X-N8N-API-KEY: [REDACTED]'' 0 msg))"

section \<open>Tool Dispatch Table (\<open>tools/workflows.ts\<close>, \<open>tools/executions.ts\<close>)\<close>

text \<open>\<open>interface McpToolResponse\<close>: content entries and nothing else.\<close>

record McpToolResponse =
  response_content :: "TextContent list"

text \<open>
  A handler validates its untyped argument with \<open>schema.parse(args)\<close> of the zod
  library, which is not part of the repository: it is a parameter here, \<open>Inr\<close> the typed
  parameters, \<open>Inl\<close> the message of the \<open>ZodError\<close> it throws.  A \<open>ZodError\<close> is an
  \<open>Error\<close> and neither an \<open>McpError\<close> nor an axios error.
\<close>

type_synonym ('a, 'p) schema = "'a \<Rightarrow> string + 'p"

type_synonym 'a handler = "'a \<Rightarrow> event list \<Rightarrow> (failure + McpToolResponse) \<times> event list"

text \<open>\<open>Object.assign(existingWorkflow, updateData)\<close>: the members \<open>updateData\<close> has
  replace those of the fetched workflow.\<close>

definition assign :: "Workflow \<Rightarrow> UpdateData \<Rightarrow> Workflow" where
  "assign existingWorkflow updateData =
     existingWorkflow
       \<lparr>wf_name := (case ud_name updateData of None \<Rightarrow> wf_name existingWorkflow | Some v \<Rightarrow> v),
        wf_nodes := (case ud_nodes updateData of None \<Rightarrow> wf_nodes existingWorkflow | Some v \<Rightarrow> v),
        wf_connections :=
          (case ud_connections updateData of None \<Rightarrow> wf_connections existingWorkflow | Some v \<Rightarrow> v),
        wf_active := (case ud_active updateData of None \<Rightarrow> wf_active existingWorkflow | Some v \<Rightarrow> v),
        wf_tags := (case ud_tags updateData of None \<Rightarrow> wf_tags existingWorkflow | Some v \<Rightarrow> Some v),
        wf_settings := Some (ud_settings updateData)\<rparr>"

text \<open>The text all three \<open>return\<close> statements of \<open>handleUpdateWorkflow\<close> build.\<close>

definition updatedText :: "Workflow \<Rightarrow> McpToolResponse" where
  "updatedText workflow =
     \<lparr>response_content =
        [\<lparr>entry_type = ''text'',
          entry_text = ''Updated workflow '' @ [CHR 0x22] @ wf_name workflow @ [CHR 0x22]
            @ '' (ID: '' @ (case wf_id workflow of None \<Rightarrow> ''undefined'' | Some i \<Rightarrow> i) @ '')''
            @ [CHR 0x0A] @ ''Active: '' @ (if wf_active workflow then ''Yes'' else ''No'')\<rparr>]\<rparr>"

text \<open>
  \<open>handleUpdateWorkflow\<close>.  Without \<open>nodes\<close> or without \<open>connections\<close> the \<open>try\<close>
  block fetches, merges and submits; its \<open>catch\<close> clause, which receives a failure of
  any of the statements of the block, submits the caller's fields alone.
\<close>

definition handleUpdateWorkflow ::
  "('a, string \<times> UpdateData) schema \<Rightarrow> Workflow channel \<Rightarrow> int \<Rightarrow> 'a handler"
where
  "handleUpdateWorkflow parse remote maxRetries args tr =
     (case parse args of
        Inl zodMessage \<Rightarrow> (Inl (JsError zodMessage), tr)
      | Inr (wid, updateData) \<Rightarrow>
          if ud_nodes updateData = None \<or> ud_connections updateData = None
          then (case getWorkflow remote maxRetries wid tr of
                  (Inr existingWorkflow, tr1) \<Rightarrow>
                    (case updateWorkflow remote maxRetries wid
                            (Full (assign existingWorkflow updateData)) tr1 of
                       (Inr workflow, tr2) \<Rightarrow> (Inr (updatedText workflow), tr2)
                     | (Inl error, tr2) \<Rightarrow>
                         (case updateWorkflow remote maxRetries wid (PartialUpdate updateData) tr2 of
                            (Inr workflow, tr3) \<Rightarrow> (Inr (updatedText workflow), tr3)
                          | (Inl error2, tr3) \<Rightarrow> (Inl error2, tr3)))
                | (Inl error, tr1) \<Rightarrow>
                    (case updateWorkflow remote maxRetries wid (PartialUpdate updateData) tr1 of
                       (Inr workflow, tr2) \<Rightarrow> (Inr (updatedText workflow), tr2)
                     | (Inl error2, tr2) \<Rightarrow> (Inl error2, tr2)))
          else (case updateWorkflow remote maxRetries wid (PartialUpdate updateData) tr of
                  (Inr workflow, tr1) \<Rightarrow> (Inr (updatedText workflow), tr1)
                | (Inl error, tr1) \<Rightarrow> (Inl error, tr1)))"

text \<open>\<open>error instanceof Error\<close> and \<open>error.message\<close> for a caught value.\<close>

fun instanceofError :: "failure \<Rightarrow> bool" where
  "instanceofError Thrown = False"
| "instanceofError _ = True"

fun errorMessage :: "failure \<Rightarrow> string" where
  "errorMessage (McpError c m) = m"
| "errorMessage (AxiosFailure error) = message error"
| "errorMessage (JsError m) = m"
| "errorMessage Thrown = []"

definition webhookGuidance :: string where
  "webhookGuidance =
     ''Error: Webhook not found. Please ensure:'' @ [CHR 0x0A]
     @ ''1. The workflow has a Webhook trigger node'' @ [CHR 0x0A]
     @ ''2. The workflow is active'' @ [CHR 0x0A]
     @ ''3. The webhook URL is correct'' @ [CHR 0x0A]
     @ ''4. The HTTP method matches the webhook configuration''"

text \<open>
  \<open>handleTriggerWebhookWorkflow\<close>.  \<open>stringify\<close> stands for
  \<open>JSON.stringify(response, null, 2)\<close>.  The \<open>catch\<close> clause returns an
  \<open>McpToolResponse\<close> when the message of the error contains \<open>404\<close> and rethrows
  otherwise.
\<close>

definition handleTriggerWebhookWorkflow ::
  "('a, WebhookRequest) schema \<Rightarrow> ('r \<Rightarrow> string) \<Rightarrow> 'r hook \<Rightarrow> 'a handler"
where
  "handleTriggerWebhookWorkflow parse stringify hook args tr =
     (case parse args of
        Inl zodMessage \<Rightarrow> (Inl (JsError zodMessage), tr)
      | Inr params \<Rightarrow>
          (case triggerWebhookWorkflow hook params tr of
             (Inr resp, tr1) \<Rightarrow>
               (Inr \<lparr>response_content =
                      [\<lparr>entry_type = ''text'',
                        entry_text = ''Webhook triggered successfully!'' @ [CHR 0x0A]
                          @ ''Response: '' @ stringify resp\<rparr>]\<rparr>, tr1)
           | (Inl error, tr1) \<Rightarrow>
               if instanceofError error \<and> str_includes (errorMessage error) ''404''
               then (Inr \<lparr>response_content =
                           [\<lparr>entry_type = ''text'', entry_text = webhookGuidance\<rparr>]\<rparr>, tr1)
               else (Inl error, tr1)))"

section \<open>Adapter Process (\<open>server.ts\<close>)\<close>

text \<open>
  What the \<open>CallToolRequestSchema\<close> handler hands back to the protocol layer: the
  handler's own response, or the \<open>ErrorResponse\<close> built in its \<open>catch\<close> clause.  Only
  the second has an \<open>isError\<close> member.
\<close>

datatype CallToolResult =
    HandlerResult McpToolResponse
  | ErrorResult ErrorResponse

fun resultIsError :: "CallToolResult \<Rightarrow> bool" where
  "resultIsError (HandlerResult r) = False"
| "resultIsError (ErrorResult e) = isError e"

text \<open>
  The request handler for tool calls.  The lookup and its \<open>throw new McpError(NOT_FOUND, ...)\<close>
  stand before the \<open>try\<close>; the \<open>try\<close> holds the call of the handler alone, and what
  \<open>createErrorResponse\<close> throws in the \<open>catch\<close> clause leaves the request handler.
\<close>

definition callTool ::
  "(string \<rightharpoonup> 'a handler) \<Rightarrow> string \<Rightarrow> 'a \<Rightarrow> event list \<Rightarrow> (failure + CallToolResult) \<times> event list"
where
  "callTool toolHandlers name args tr =
     (case toolHandlers name of
        None \<Rightarrow> (Inl (McpError NOT_FOUND (''Tool not found: '' @ name)), tr)
      | Some handler \<Rightarrow>
          (case handler args tr of
             (Inr result, tr1) \<Rightarrow> (Inr (HandlerResult result), tr1)
           | (Inl error, tr1) \<Rightarrow>
               (case createErrorResponse error of
                  Inr errorResponse \<Rightarrow> (Inr (ErrorResult errorResponse), tr1)
                | Inl thrown \<Rightarrow> (Inl thrown, tr1))))"

section \<open>Histories\<close>

text \<open>
  Two readings of a history, used to state what the gateway leaves in it: the events of
  \<open>n\<close> attempts that were each followed by a backoff pause, the first with retry counter
  \<open>r\<close>; and the requests of a history, in order.
\<close>

definition rounds :: "AxiosRequestConfig \<Rightarrow> nat \<Rightarrow> nat \<Rightarrow> event list" where
  "rounds config r n = concat (map (\<lambda>k. [Sent config, Delay (2 ^ k * 1000)]) [r..<r + n])"

fun sentConfigs :: "event list \<Rightarrow> AxiosRequestConfig list" where
  "sentConfigs [] = []"
| "sentConfigs (Sent config # es) = config # sentConfigs es"
| "sentConfigs (e # es) = sentConfigs es"

section \<open>The retry loop\<close>

lemma rounds_0 [simp]: "rounds config r 0 = []"
  by (simp add: rounds_def)

lemma rounds_Suc_left:
  "rounds config r (Suc n) = [Sent config, Delay (2 ^ r * 1000)] @ rounds config (Suc r) n"
  by (simp add: rounds_def upt_conv_Cons)

lemma sentConfigs_append [simp]: "sentConfigs (xs @ ys) = sentConfigs xs @ sentConfigs ys"
  by (induction xs rule: sentConfigs.induct) simp_all

lemma sentConfigs_rounds [simp]: "sentConfigs (rounds config r n) = replicate n config"
  by (induction n arbitrary: r) (simp_all add: rounds_Suc_left)

lemma request_Inr:
  "remote tr config = Inr d \<Longrightarrow> request remote m config r tr = (Inr d, tr @ [Sent config])"
  by (subst request.simps) simp

lemma request_stop:
  "remote tr config = Inl e \<Longrightarrow> \<not> (int r < m \<and> shouldRetry e) \<Longrightarrow>
   request remote m config r tr = (Inl e, tr @ [Sent config])"
  by (subst request.simps) auto

lemma request_retry:
  "remote tr config = Inl e \<Longrightarrow> int r < m \<Longrightarrow> shouldRetry e \<Longrightarrow>
   request remote m config r tr
     = request remote m config (Suc r) (tr @ [Sent config, Delay (2 ^ r * 1000)])"
  by (subst request.simps) simp

lemma request_shape:
  "request remote m config r tr = (res, tr') \<Longrightarrow>
   \<exists>n. tr' = tr @ rounds config r n @ [Sent config]
     \<and> (n = 0 \<or> int (r + n) \<le> m)
     \<and> (\<forall>k<n. \<exists>e. remote (tr @ rounds config r k) config = Inl e \<and> shouldRetry e)
     \<and> res = remote (tr @ rounds config r n) config
     \<and> (\<forall>e. res = Inl e \<longrightarrow> \<not> shouldRetry e \<or> m \<le> int (r + n))"
proof (induction remote m config r tr arbitrary: res tr' rule: request.induct)
  case (1 remote m config r tr)
  show ?case
  proof (cases "remote tr config")
    case (Inr d)
    with "1.prems" have "res = Inr d" "tr' = tr @ [Sent config]"
      by (simp_all add: request_Inr)
    with Inr show ?thesis by (intro exI[of _ 0]) simp
  next
    case (Inl e)
    show ?thesis
    proof (cases "int r < m \<and> shouldRetry e")
      case False
      with Inl "1.prems" have "res = Inl e" "tr' = tr @ [Sent config]"
        by (simp_all add: request_stop)
      with Inl False show ?thesis by (intro exI[of _ 0]) auto
    next
      case True
      with Inl "1.prems"
      have rec: "request remote m config (r + 1) (tr @ [Sent config, Delay (2 ^ r * 1000)]) = (res, tr')"
        by (simp add: request_retry)
      from "1.IH"[OF Inl True rec] obtain n where
        a: "tr' = (tr @ [Sent config, Delay (2 ^ r * 1000)]) @ rounds config (r + 1) n @ [Sent config]"
        and b: "n = 0 \<or> int (r + 1 + n) \<le> m"
        and c: "\<forall>k<n. \<exists>e. remote ((tr @ [Sent config, Delay (2 ^ r * 1000)]) @ rounds config (r + 1) k) config = Inl e
                  \<and> shouldRetry e"
        and d: "res = remote ((tr @ [Sent config, Delay (2 ^ r * 1000)]) @ rounds config (r + 1) n) config"
        and e: "\<forall>e. res = Inl e \<longrightarrow> \<not> shouldRetry e \<or> m \<le> int (r + 1 + n)"
        by blast
      have c': "\<forall>k<Suc n. \<exists>e. remote (tr @ rounds config r k) config = Inl e \<and> shouldRetry e"
      proof (intro allI impI)
        fix k assume "k < Suc n"
        show "\<exists>e. remote (tr @ rounds config r k) config = Inl e \<and> shouldRetry e"
        proof (cases k)
          case 0
          with Inl True show ?thesis by simp
        next
          case (Suc j)
          with \<open>k < Suc n\<close> c show ?thesis by (simp add: rounds_Suc_left)
        qed
      qed
      show ?thesis
        using a b c' d e True by (intro exI[of _ "Suc n"]) (auto simp: rounds_Suc_left)
    qed
  qed
qed

lemma request_sent:
  assumes "request remote m config 0 tr = (res, tr')"
  shows "\<exists>n. int n \<le> max 0 m \<and> sentConfigs tr' = sentConfigs tr @ replicate (Suc n) config"
proof -
  from request_shape[OF assms] obtain n where
    "tr' = tr @ rounds config 0 n @ [Sent config]" "n = 0 \<or> int (0 + n) \<le> m"
    by blast
  then show ?thesis
    by (intro exI[of _ n]) (auto simp: replicate_append_same)
qed

lemma shouldRetry_iff:
  "shouldRetry e \<longleftrightarrow>
     (\<exists>a. e = AxiosFailure a \<and>
        (response a = None \<or>
         (\<exists>r. response a = Some r \<and> (status r = Some 429 \<or> status r = Some 503 \<or> status r = Some 504))))"
  by (cases e) (auto simp: Let_def response_status_def split: option.splits)

text \<open>
  Claim C1.  A call \<open>request(config)\<close> that ends with result \<open>res\<close> has sent the same
  request \<open>n + 1\<close> times, where \<open>n\<close> is at most the configured maximum (3 when none
  is configured), and has paused \<open>2 ^ k\<close> seconds (\<open>2 ^ k * 1000\<close> milliseconds) after
  attempt \<open>k\<close> for \<open>k = 0, ..., n - 1\<close>, and done nothing else.  Each of the first \<open>n\<close>
  attempts failed with a transient failure, which is an axios error with status 429, 503
  or 504 or with no response; a failure of any other kind, in particular every failure
  that is not an axios error, ends the call at once with that failure and no retry.  The
  result is the outcome of the last attempt, and when it is a failure either it is not
  transient or the budget is used up.
\<close>

theorem request_retry_policy:
  assumes run: "request remote maxRetries config 0 tr = (res, tr')"
  shows "defaultMaxRetries None = 3
    \<and> (\<forall>e. shouldRetry e \<longleftrightarrow>
          (\<exists>a. e = AxiosFailure a \<and>
            (response a = None \<or>
             (\<exists>r. response a = Some r \<and>
               (status r = Some 429 \<or> status r = Some 503 \<or> status r = Some 504)))))
    \<and> (\<exists>n. int n \<le> max 0 maxRetries
          \<and> tr' = tr @ concat (map (\<lambda>k. [Sent config, Delay (2 ^ k * 1000)]) [0..<n]) @ [Sent config]
          \<and> (\<forall>k<n. \<exists>e. remote (tr @ concat (map (\<lambda>k. [Sent config, Delay (2 ^ k * 1000)]) [0..<k])) config = Inl e
                        \<and> shouldRetry e)
          \<and> res = remote (tr @ concat (map (\<lambda>k. [Sent config, Delay (2 ^ k * 1000)]) [0..<n])) config
          \<and> (\<forall>e. res = Inl e \<longrightarrow> \<not> shouldRetry e \<or> maxRetries \<le> int n))
    \<and> (\<forall>e. remote tr config = Inl e \<and> \<not> shouldRetry e \<longrightarrow> res = Inl e \<and> tr' = tr @ [Sent config])"
proof -
  have A: "defaultMaxRetries None = 3" by (simp add: defaultMaxRetries_def)
  from request_shape[OF run] obtain n where
    "tr' = tr @ rounds config 0 n @ [Sent config]"
    "n = 0 \<or> int (0 + n) \<le> maxRetries"
    "\<forall>k<n. \<exists>e. remote (tr @ rounds config 0 k) config = Inl e \<and> shouldRetry e"
    "res = remote (tr @ rounds config 0 n) config"
    "\<forall>e. res = Inl e \<longrightarrow> \<not> shouldRetry e \<or> maxRetries \<le> int (0 + n)"
    by blast
  then have C: "\<exists>n. int n \<le> max 0 maxRetries
          \<and> tr' = tr @ concat (map (\<lambda>k. [Sent config, Delay (2 ^ k * 1000)]) [0..<n]) @ [Sent config]
          \<and> (\<forall>k<n. \<exists>e. remote (tr @ concat (map (\<lambda>k. [Sent config, Delay (2 ^ k * 1000)]) [0..<k])) config = Inl e
                        \<and> shouldRetry e)
          \<and> res = remote (tr @ concat (map (\<lambda>k. [Sent config, Delay (2 ^ k * 1000)]) [0..<n])) config
          \<and> (\<forall>e. res = Inl e \<longrightarrow> \<not> shouldRetry e \<or> maxRetries \<le> int n)"
    unfolding rounds_def by (intro exI[of _ n]) auto
  have D: "\<forall>e. remote tr config = Inl e \<and> \<not> shouldRetry e \<longrightarrow> res = Inl e \<and> tr' = tr @ [Sent config]"
    using run by (auto simp: request_stop)
  from A shouldRetry_iff C D show ?thesis by blast
qed

text \<open>
  The policy at work: a remote instance that answers 503 twice and then succeeds, with
  the default budget of 3.
\<close>

theorem request_retry_policy_witness:
  "request
     (\<lambda>tr config. if length tr < 4
        then Inl (AxiosFailure \<lparr>response = Some \<lparr>status = Some 503, statusText = Some ''Service Unavailable'', resp_data = None\<rparr>,
                               code = Some ''ERR_BAD_RESPONSE'', message = ''Request failed with status code 503'',
                               err_config = None\<rparr>)
        else Inr JNull)
     3 \<lparr>req_method = ''GET'', req_url = ''/workflows'', req_data = None\<rparr> 0 []
   = (Inr JNull,
      [Sent \<lparr>req_method = ''GET'', req_url = ''/workflows'', req_data = None\<rparr>, Delay 1000,
       Sent \<lparr>req_method = ''GET'', req_url = ''/workflows'', req_data = None\<rparr>, Delay 2000,
       Sent \<lparr>req_method = ''GET'', req_url = ''/workflows'', req_data = None\<rparr>])
   \<and> defaultMaxRetries None = 3"
proof -
  have h: "request
     (\<lambda>tr config. if length tr < 4
        then Inl (AxiosFailure \<lparr>response = Some \<lparr>status = Some 503, statusText = Some ''Service Unavailable'', resp_data = None\<rparr>,
                               code = Some ''ERR_BAD_RESPONSE'', message = ''Request failed with status code 503'',
                               err_config = None\<rparr>)
        else Inr JNull)
     3 \<lparr>req_method = ''GET'', req_url = ''/workflows'', req_data = None\<rparr> 0 []
   = (Inr JNull,
      [Sent \<lparr>req_method = ''GET'', req_url = ''/workflows'', req_data = None\<rparr>, Delay 1000,
       Sent \<lparr>req_method = ''GET'', req_url = ''/workflows'', req_data = None\<rparr>, Delay 2000,
       Sent \<lparr>req_method = ''GET'', req_url = ''/workflows'', req_data = None\<rparr>])"
    by (simp add: request.simps response_status_def)
  from request_retry_policy[OF h] h show ?thesis by blast
qed


section \<open>Verb fallback and the activation chain\<close>

lemma activateWorkflow_eq: "activateWorkflow = setActive_reference True"
  by (intro ext) (simp add: activateWorkflow_def setActive_reference_def)

lemma deactivateWorkflow_eq: "deactivateWorkflow = setActive_reference False"
  by (intro ext) (simp add: deactivateWorkflow_def setActive_reference_def)

lemma isAxios405_iff:
  "isAxios405 e \<longleftrightarrow> (\<exists>a. e = AxiosFailure a \<and> response_status a = Some 405)"
  by (cases e) auto


lemma updateWorkflow_stages:
  assumes "updateWorkflow remote m wid workflow tr = (res, tr')"
  shows "\<exists>r1 t1.
     request remote m \<lparr>req_method = ''PUT'', req_url = ''/workflows/'' @ wid, req_data = Some workflow\<rparr> 0 tr = (r1, t1)
     \<and> (case r1 of
          Inr updated \<Rightarrow> res = r1 \<and> tr' = t1
        | Inl e \<Rightarrow>
            if isAxios405 e
            then request remote m \<lparr>req_method = ''PATCH'', req_url = ''/workflows/'' @ wid, req_data = Some workflow\<rparr> 0 t1 = (res, tr')
            else res = r1 \<and> tr' = t1)"
  using assms by (auto simp: updateWorkflow_def split: prod.splits sum.splits if_splits)

lemma updateWorkflow_sent:
  assumes "updateWorkflow remote m wid workflow tr = (res, tr')"
  shows "\<exists>p q. sentConfigs tr' = sentConfigs tr
            @ replicate (Suc p) \<lparr>req_method = ''PUT'', req_url = ''/workflows/'' @ wid, req_data = Some workflow\<rparr>
            @ replicate q \<lparr>req_method = ''PATCH'', req_url = ''/workflows/'' @ wid, req_data = Some workflow\<rparr>
          \<and> int p \<le> max 0 m \<and> int q \<le> max 0 m + 1
          \<and> (0 < q \<longleftrightarrow> (\<exists>e t1. request remote m \<lparr>req_method = ''PUT'', req_url = ''/workflows/'' @ wid, req_data = Some workflow\<rparr> 0 tr = (Inl e, t1) \<and> isAxios405 e))"
proof -
  let ?put = "\<lparr>req_method = ''PUT'', req_url = ''/workflows/'' @ wid, req_data = Some workflow\<rparr>"
  let ?patch = "\<lparr>req_method = ''PATCH'', req_url = ''/workflows/'' @ wid, req_data = Some workflow\<rparr>"
  obtain r1 t1 where r1: "request remote m ?put 0 tr = (r1, t1)" by force
  from request_sent[OF r1] obtain p where
    p: "int p \<le> max 0 m" "sentConfigs t1 = sentConfigs tr @ replicate (Suc p) ?put" by blast
  show ?thesis
  proof (cases "\<exists>e. r1 = Inl e \<and> isAxios405 e")
    case True
    then obtain e where e: "r1 = Inl e" "isAxios405 e" by blast
    with assms r1 have r2: "request remote m ?patch 0 t1 = (res, tr')"
      by (simp add: updateWorkflow_def)
    from request_sent[OF r2] obtain q where
      q: "int q \<le> max 0 m" "sentConfigs tr' = sentConfigs t1 @ replicate (Suc q) ?patch" by blast
    show ?thesis
      using p q r1 e by (intro exI[of _ p] exI[of _ "Suc q"]) auto
  next
    case False
    with assms r1 have "tr' = t1"
      by (auto simp: updateWorkflow_def split: sum.splits if_splits)
    with p r1 False show ?thesis
      by (intro exI[of _ p] exI[of _ 0]) auto
  qed
qed


text \<open>
  Claim C3.  \<open>updateWorkflow\<close> first runs the update as a PUT, through \<open>request\<close> with
  its retry policy.  When that ends in an axios error with status 405, and in no other
  case, it runs the same update (same path, same body) once more as a PATCH, and the
  outcome of the PATCH is the outcome of the call; otherwise the outcome of the PUT is.
  On the wire this is a run of PUT requests followed by a run of PATCH requests, each run
  no longer than one request with its retries, and the PATCH run is there exactly when
  the PUT ended with 405: the call never goes back to PUT and never starts a second
  fallback.
\<close>

theorem updateWorkflow_verb_fallback:
  assumes run: "updateWorkflow remote maxRetries wid workflow tr = (res, tr')"
  shows "(\<forall>e. isAxios405 e \<longleftrightarrow> (\<exists>a. e = AxiosFailure a \<and> response_status a = Some 405))
    \<and> (\<exists>r1 t1.
          request remote maxRetries
            \<lparr>req_method = ''PUT'', req_url = ''/workflows/'' @ wid, req_data = Some workflow\<rparr> 0 tr = (r1, t1)
          \<and> (case r1 of
               Inr updated \<Rightarrow> res = r1 \<and> tr' = t1
             | Inl e \<Rightarrow>
                 if isAxios405 e
                 then request remote maxRetries
                        \<lparr>req_method = ''PATCH'', req_url = ''/workflows/'' @ wid, req_data = Some workflow\<rparr> 0 t1
                      = (res, tr')
                 else res = r1 \<and> tr' = t1))
    \<and> (\<exists>p q. sentConfigs tr' = sentConfigs tr
            @ replicate (Suc p) \<lparr>req_method = ''PUT'', req_url = ''/workflows/'' @ wid, req_data = Some workflow\<rparr>
            @ replicate q \<lparr>req_method = ''PATCH'', req_url = ''/workflows/'' @ wid, req_data = Some workflow\<rparr>
          \<and> int p \<le> max 0 maxRetries \<and> int q \<le> max 0 maxRetries + 1
          \<and> (0 < q \<longleftrightarrow>
               (\<exists>e t1. request remote maxRetries
                          \<lparr>req_method = ''PUT'', req_url = ''/workflows/'' @ wid, req_data = Some workflow\<rparr> 0 tr
                        = (Inl e, t1) \<and> isAxios405 e)))"
proof (intro conjI)
  show "\<forall>e. isAxios405 e \<longleftrightarrow> (\<exists>a. e = AxiosFailure a \<and> response_status a = Some 405)"
    using isAxios405_iff by blast
qed (rule updateWorkflow_stages[OF run], rule updateWorkflow_sent[OF run])

text \<open>A remote instance that refuses every PUT with 405 and accepts the PATCH.\<close>

theorem updateWorkflow_verb_fallback_witness:
  "updateWorkflow
     (\<lambda>tr config. if req_method config = ''PUT''
        then Inl (AxiosFailure \<lparr>response = Some \<lparr>status = Some 405, statusText = Some ''Method Not Allowed'', resp_data = None\<rparr>,
                               code = Some ''ERR_BAD_REQUEST'', message = ''Request failed with status code 405'',
                               err_config = Some \<lparr>err_method = Some ''put'', err_url = Some ''/workflows/7''\<rparr>\<rparr>)
        else Inr \<lparr>wf_id = Some ''7'', wf_name = ''renamed'', wf_nodes = [], wf_connections = JObj [],
                  wf_active = False, wf_settings = None, wf_staticData = None, wf_tags = None,
                  wf_updatedAt = None, wf_createdAt = None, wf_versionId = None, wf_meta = None\<rparr>)
     3 ''7'' (ActiveOnly False) []
   = (Inr \<lparr>wf_id = Some ''7'', wf_name = ''renamed'', wf_nodes = [], wf_connections = JObj [],
            wf_active = False, wf_settings = None, wf_staticData = None, wf_tags = None,
            wf_updatedAt = None, wf_createdAt = None, wf_versionId = None, wf_meta = None\<rparr>,
      [Sent \<lparr>req_method = ''PUT'', req_url = ''/workflows/7'', req_data = Some (ActiveOnly False)\<rparr>,
       Sent \<lparr>req_method = ''PATCH'', req_url = ''/workflows/7'', req_data = Some (ActiveOnly False)\<rparr>])
   \<and> (\<exists>p q. int p \<le> max 0 3 \<and> int q \<le> max 0 3 + 1
         \<and> sentConfigs
               [Sent \<lparr>req_method = ''PUT'', req_url = ''/workflows/7'', req_data = Some (ActiveOnly False)\<rparr>,
                Sent \<lparr>req_method = ''PATCH'', req_url = ''/workflows/7'', req_data = Some (ActiveOnly False)\<rparr>]
             = sentConfigs []
               @ replicate (Suc p) \<lparr>req_method = ''PUT'', req_url = ''/workflows/'' @ ''7'', req_data = Some (ActiveOnly False)\<rparr>
               @ replicate q \<lparr>req_method = ''PATCH'', req_url = ''/workflows/'' @ ''7'', req_data = Some (ActiveOnly False)\<rparr>)"
proof -
  have h: "updateWorkflow
     (\<lambda>tr config. if req_method config = ''PUT''
        then Inl (AxiosFailure \<lparr>response = Some \<lparr>status = Some 405, statusText = Some ''Method Not Allowed'', resp_data = None\<rparr>,
                               code = Some ''ERR_BAD_REQUEST'', message = ''Request failed with status code 405'',
                               err_config = Some \<lparr>err_method = Some ''put'', err_url = Some ''/workflows/7''\<rparr>\<rparr>)
        else Inr \<lparr>wf_id = Some ''7'', wf_name = ''renamed'', wf_nodes = [], wf_connections = JObj [],
                  wf_active = False, wf_settings = None, wf_staticData = None, wf_tags = None,
                  wf_updatedAt = None, wf_createdAt = None, wf_versionId = None, wf_meta = None\<rparr>)
     3 ''7'' (ActiveOnly False) []
   = (Inr \<lparr>wf_id = Some ''7'', wf_name = ''renamed'', wf_nodes = [], wf_connections = JObj [],
            wf_active = False, wf_settings = None, wf_staticData = None, wf_tags = None,
            wf_updatedAt = None, wf_createdAt = None, wf_versionId = None, wf_meta = None\<rparr>,
      [Sent \<lparr>req_method = ''PUT'', req_url = ''/workflows/7'', req_data = Some (ActiveOnly False)\<rparr>,
       Sent \<lparr>req_method = ''PATCH'', req_url = ''/workflows/7'', req_data = Some (ActiveOnly False)\<rparr>])"
    by (simp add: updateWorkflow_def request.simps response_status_def)
  from updateWorkflow_verb_fallback[OF h] h show ?thesis by blast
qed





text \<open>
  Claim C10.  The source writes the two operations out separately.  Both are instances of
  one function of the flag: for every remote instance, retry budget, workflow id and
  history, activation is that function at \<open>true\<close> and deactivation is it at \<open>false\<close>,
  so they send the same requests and take the same decisions up to the value of the flag.
\<close>

theorem deactivate_mirrors_activate:
  "activateWorkflow remote maxRetries wid tr = setActive_reference True remote maxRetries wid tr
   \<and> deactivateWorkflow remote maxRetries wid tr = setActive_reference False remote maxRetries wid tr"
  by (simp add: activateWorkflow_eq deactivateWorkflow_eq)

section \<open>Classification of remote failures\<close>







section \<open>The boundary of the adapter process\<close>







text \<open>
  Outside the failures the theorem speaks of: the classifier itself throws on a 400
  response whose payload message is a number, and the adapter passes that on.
\<close>

lemma callTool_classifier_throws:
  "callTool
     (Map.empty(''n8n_get_workflow'' \<mapsto>
        (\<lambda>args tr. (Inl (AxiosFailure
                       \<lparr>response = Some \<lparr>status = Some 400, statusText = Some ''Bad Request'',
                                          resp_data = Some (JObj [(''message'', JNum 42)])\<rparr>,
                        code = Some ''ERR_BAD_REQUEST'', message = ''Request failed with status code 400'',
                        err_config = None\<rparr>), tr))))
     ''n8n_get_workflow'' JNull []
   = (Inl (JsError ''apiMessage?.includes is not a function''), [])"
  by (simp add: callTool_def createErrorResponse_def handleAxiosError_def response_status_def
        response_apiMessage_def)

text \<open>
  Claim C6 asks for the redaction pass on every message that leaves the classifier.
  \<open>createErrorResponse\<close> does not call \<open>sanitizeErrorMessage\<close>, and nothing else in
  the repository does: a remote 400 whose payload message echoes the API-key header, and
  a plain error whose message holds a bearer token, both reach the caller verbatim, where
  the redaction pass would have put the marker.
\<close>

theorem createErrorResponse_not_sanitized:
  "createErrorResponse
     (AxiosFailure
        \<lparr>response = Some \<lparr>status = Some 400, statusText = Some ''Bad Request'',
                           resp_data = Some (JObj [(''message'', JStr ''unexpected header X-N8N-API-KEY: n8n_api_5ecr3t'')])\<rparr>,
         code = Some ''ERR_BAD_REQUEST'', message = ''Request failed with status code 400'',
         err_config = None\<rparr>)
   = Inr \<lparr>isError = True,
          content = [\<lparr>entry_type = ''text'',
                      entry_text = ''Error: unexpected header X-N8N-API-KEY: n8n_api_5ecr3t''\<rparr>]\<rparr>
   \<and> sanitizeErrorMessage ''unexpected header X-N8N-API-KEY: n8n_api_5ecr3t''
     = ''unexpected header X-N8N-API-KEY: [REDACTED]''
   \<and> createErrorResponse (JsError ''upstream said: Authorization: Bearer abc123'')
   = Inr \<lparr>isError = True,
          content = [\<lparr>entry_type = ''text'',
                      entry_text = ''Error: upstream said: Authorization: Bearer abc123''\<rparr>]\<rparr>
   \<and> sanitizeErrorMessage ''upstream said: Authorization: Bearer abc123''
     = ''upstream said: Authorization: Bearer [REDACTED]''"
proof -
  have a: "createErrorResponse
     (AxiosFailure
        \<lparr>response = Some \<lparr>status = Some 400, statusText = Some ''Bad Request'',
                           resp_data = Some (JObj [(''message'', JStr ''unexpected header X-N8N-API-KEY: n8n_api_5ecr3t'')])\<rparr>,
         code = Some ''ERR_BAD_REQUEST'', message = ''Request failed with status code 400'',
         err_config = None\<rparr>)
   = Inr \<lparr>isError = True,
          content = [\<lparr>entry_type = ''text'',
                      entry_text = ''Error: unexpected header X-N8N-API-KEY: n8n_api_5ecr3t''\<rparr>]\<rparr>"
    by (simp add: createErrorResponse_def handleAxiosError_def response_status_def
          response_apiMessage_def jsOr_def templateString_def)
  have b: "sanitizeErrorMessage ''unexpected header X-N8N-API-KEY: n8n_api_5ecr3t''
     = ''unexpected header X-N8N-API-KEY: [REDACTED]''"
    by code_simp
  have c: "createErrorResponse (JsError ''upstream said: Authorization: Bearer abc123'')
   = Inr \<lparr>isError = True,
          content = [\<lparr>entry_type = ''text'',
                      entry_text = ''Error: upstream said: Authorization: Bearer abc123''\<rparr>]\<rparr>"
    by (simp add: createErrorResponse_def templateString_def)
  have d: "sanitizeErrorMessage ''upstream said: Authorization: Bearer abc123''
     = ''upstream said: Authorization: Bearer [REDACTED]''"
    by code_simp
  from a b c d show ?thesis by blast
qed


section \<open>Handlers\<close>

text \<open>
  Claim C7 asks for an \<open>INVALID_PARAMS\<close> failure, listing every missing field, when the
  argument of a tool fails validation.  The handlers validate with \<open>schema.parse\<close>, whose
  \<open>ZodError\<close> is no \<open>McpError\<close>: \<open>handleUpdateWorkflow\<close> raises it as it is, the
  classifier takes its \<open>instanceof Error\<close> branch and keeps the initial code
  \<open>INTERNAL_ERROR\<close>, and the caller receives the validator's message behind \<open>Error: \<close>.
  \<open>validateRequiredParams\<close>, which no handler calls, is the function that raises
  \<open>INVALID_PARAMS\<close> and names all missing parameters.
\<close>

theorem validation_failure_is_internal_error:
  "handleUpdateWorkflow (\<lambda>args. Inl zodMessage) remote maxRetries args tr = (Inl (JsError zodMessage), tr)
   \<and> messageAndCode (JsError zodMessage) = Inr (JStr zodMessage, INTERNAL_ERROR)
   \<and> callTool (Map.empty(''n8n_update_workflow'' \<mapsto> handleUpdateWorkflow (\<lambda>args. Inl zodMessage) remote maxRetries))
         ''n8n_update_workflow'' args tr
       = (Inr (ErrorResult
                \<lparr>isError = True,
                 content = [\<lparr>entry_type = ''text'', entry_text = ''Error: '' @ zodMessage\<rparr>]\<rparr>), tr)
   \<and> validateRequiredParams [(''name'', JStr ''renamed'')] [''id'', ''name'', ''nodes'']
       = Inl (McpError INVALID_PARAMS ''Missing required parameters: id, nodes'')"
  by (simp add: handleUpdateWorkflow_def callTool_def createErrorResponse_def templateString_def
        validateRequiredParams_def objectPrototypeMembers_def)

text \<open>
  Claim C8 asks that a webhook call answered with 404 give guidance and still be an error
  result.  The handler catches the axios error, whose message contains \<open>404\<close>, and
  returns the guidance as an ordinary \<open>McpToolResponse\<close>; the adapter passes it on as the
  handler's response, which has no \<open>isError\<close> member.
\<close>

theorem webhook_404_is_not_an_error_result:
  "callTool
     (Map.empty(''n8n_trigger_webhook_workflow'' \<mapsto>
        handleTriggerWebhookWorkflow
          (\<lambda>args. Inr \<lparr>webhookUrl = ''https://n8n.example.com/webhook/abc'', httpMethod = ''POST'',
                      wh_data = None, wh_headers = None, waitForResponse = True\<rparr>)
          (\<lambda>r. r)
          (\<lambda>tr webhook.
          Inl (AxiosFailure
                 \<lparr>response = Some \<lparr>status = Some 404, statusText = Some ''Not Found'', resp_data = None\<rparr>,
                  code = Some ''ERR_BAD_REQUEST'', message = ''Request failed with status code 404'',
                  err_config = None\<rparr>))))
     ''n8n_trigger_webhook_workflow'' JNull []
   = (Inr (HandlerResult
            \<lparr>response_content = [\<lparr>entry_type = ''text'', entry_text = webhookGuidance\<rparr>]\<rparr>),
      [Hook \<lparr>webhookUrl = ''https://n8n.example.com/webhook/abc'', httpMethod = ''POST'',
                      wh_data = None, wh_headers = None, waitForResponse = True\<rparr> 60000])
   \<and> \<not> resultIsError
         (HandlerResult
            \<lparr>response_content = [\<lparr>entry_type = ''text'', entry_text = webhookGuidance\<rparr>]\<rparr>)"
  by (simp add: callTool_def handleTriggerWebhookWorkflow_def triggerWebhookWorkflow_def)

text \<open>
  Claim C9 has \<open>update_workflow\<close> fall back to the caller's fields exactly when the fetch
  fails, as the comment in the \<open>catch\<close> clause says.  The \<open>try\<close> block holds the
  submission of the merged workflow too: here the fetch succeeds, the remote instance
  refuses the merged workflow with 400, and the handler submits the caller's fields alone
  and reports success.
\<close>

theorem partial_update_after_successful_fetch:
  "handleUpdateWorkflow
     (\<lambda>args. Inr (''7'', \<lparr>ud_name = Some ''renamed'', ud_nodes = None, ud_connections = None, ud_active = None,
               ud_tags = None, ud_settings = JObj []\<rparr>))
     (\<lambda>tr config.
          if req_method config = ''GET''
          then Inr \<lparr>wf_id = Some ''7'', wf_name = ''nightly'', wf_nodes = [], wf_connections = JObj [],
               wf_active = False, wf_settings = None, wf_staticData = None, wf_tags = None,
               wf_updatedAt = None, wf_createdAt = None, wf_versionId = None, wf_meta = None\<rparr>
          else if req_data config = Some (PartialUpdate \<lparr>ud_name = Some ''renamed'', ud_nodes = None, ud_connections = None, ud_active = None,
               ud_tags = None, ud_settings = JObj []\<rparr>)
          then Inr \<lparr>wf_id = Some ''7'', wf_name = ''renamed'', wf_nodes = [], wf_connections = JObj [],
               wf_active = False, wf_settings = Some (JObj []), wf_staticData = None, wf_tags = None,
               wf_updatedAt = None, wf_createdAt = None, wf_versionId = None, wf_meta = None\<rparr>
          else Inl (AxiosFailure
                 \<lparr>response = Some \<lparr>status = Some 400, statusText = Some ''Bad Request'',
                                    resp_data = Some (JObj [(''message'', JStr ''request/body must NOT have additional properties'')])\<rparr>,
                  code = Some ''ERR_BAD_REQUEST'', message = ''Request failed with status code 400'',
                  err_config = None\<rparr>))
     3 JNull []
   = (Inr (updatedText \<lparr>wf_id = Some ''7'', wf_name = ''renamed'', wf_nodes = [], wf_connections = JObj [],
               wf_active = False, wf_settings = Some (JObj []), wf_staticData = None, wf_tags = None,
               wf_updatedAt = None, wf_createdAt = None, wf_versionId = None, wf_meta = None\<rparr>),
      [Sent \<lparr>req_method = ''GET'', req_url = ''/workflows/7'', req_data = None\<rparr>,
       Sent \<lparr>req_method = ''PUT'', req_url = ''/workflows/7'',
             req_data = Some (Full \<lparr>wf_id = Some ''7'', wf_name = ''renamed'', wf_nodes = [], wf_connections = JObj [],
               wf_active = False, wf_settings = Some (JObj []), wf_staticData = None, wf_tags = None,
               wf_updatedAt = None, wf_createdAt = None, wf_versionId = None, wf_meta = None\<rparr>)\<rparr>,
       Sent \<lparr>req_method = ''PUT'', req_url = ''/workflows/7'',
             req_data = Some (PartialUpdate \<lparr>ud_name = Some ''renamed'', ud_nodes = None, ud_connections = None, ud_active = None,
               ud_tags = None, ud_settings = JObj []\<rparr>)\<rparr>])"
  by (simp add: handleUpdateWorkflow_def getWorkflow_def updateWorkflow_def request.simps
        response_status_def assign_def)

end
